theory Spec2Isabelle
  imports Main
begin

section \<open>JavaScript values of the gallery script\<close>

text \<open>
  The script modelled is the gallery script with the date filter (the functions
  \<open>showLoading\<close>, \<open>openModal\<close>, \<open>closeModal\<close>, \<open>buildGallery\<close>,
  \<open>transitionToGallery\<close>, \<open>applyFilter\<close> and \<open>fetchAndShow\<close>).

  A feed record is an object of which the script reads six properties. A property is
  either absent (reading it gives \<open>undefined\<close>) or a string. JavaScript strings are
  kept as their UTF-8 bytes, so that string concatenation is list append.
\<close>

datatype jsval = Undefined | Str string

text \<open>Truthiness: \<open>undefined\<close> and the empty string are falsy.\<close>

definition truthy :: "jsval \<Rightarrow> bool" where
  "truthy v = (case v of Undefined \<Rightarrow> False | Str s \<Rightarrow> s \<noteq> [])"

text \<open>The operator \<open>a || b\<close>.\<close>

definition jsor :: "jsval \<Rightarrow> jsval \<Rightarrow> jsval" where
  "jsor a b = (if truthy a then a else b)"

text \<open>Conversion to a string, as a template literal or a DOM string attribute does it.\<close>

definition toStr :: "jsval \<Rightarrow> string" where
  "toStr v = (case v of Undefined \<Rightarrow> ''undefined'' | Str s \<Rightarrow> s)"

definition emdash :: string where
  "emdash = [CHR 0xE2, CHR 0x80, CHR 0x94]"

definition ellipsis :: string where
  "ellipsis = [CHR 0xE2, CHR 0x80, CHR 0xA6]"

definition dquote :: string where
  "dquote = [CHR 0x22]"

record apod =
  title :: jsval
  date :: jsval
  explanation :: jsval
  media_type :: jsval
  url :: jsval
  hdurl :: jsval

section \<open>Dates\<close>

text \<open>
  A \<open>Date\<close> object is its time value in milliseconds, \<open>None\<close> for an invalid date (NaN).
  \<open>Date.parse\<close> belongs to the platform; the script's functions take it as the parameter
  \<open>P\<close>. Relational operators on dates compare the time values and are false as soon as
  one side is NaN.
\<close>

type_synonym jsdate = "int option"
type_synonym parser = "string \<Rightarrow> int option"

definition newDate :: "parser \<Rightarrow> jsval \<Rightarrow> jsdate" where
  "newDate P v = (case v of Undefined \<Rightarrow> None | Str s \<Rightarrow> P s)"

definition date_lt :: "jsdate \<Rightarrow> jsdate \<Rightarrow> bool" where
  "date_lt a b = (case a of None \<Rightarrow> False
                  | Some x \<Rightarrow> (case b of None \<Rightarrow> False | Some y \<Rightarrow> x < y))"

definition date_gt :: "jsdate \<Rightarrow> jsdate \<Rightarrow> bool" where
  "date_gt a b = date_lt b a"

text \<open>
  The date-only ISO form \<open>YYYY-MM-DD\<close> of \<open>Date.parse\<close>: midnight UTC of that day,
  counted in milliseconds from 1970-01-01. Any other string is left invalid here; the
  theorems below hold for every parser, this one evaluates them on concrete feeds.
\<close>

definition digit :: "char \<Rightarrow> int option" where
  "digit c = map_of (zip ''0123456789'' [0, 1, 2, 3, 4, 5, 6, 7, 8, 9]) c"

fun digits :: "int \<Rightarrow> string \<Rightarrow> int option" where
  "digits acc [] = Some acc"
| "digits acc (c # cs) = (case digit c of None \<Rightarrow> None | Some d \<Rightarrow> digits (10 * acc + d) cs)"

definition leapYear :: "int \<Rightarrow> bool" where
  "leapYear y = (if y mod 400 = 0 then True else if y mod 100 = 0 then False else y mod 4 = 0)"

definition daysInMonth :: "int \<Rightarrow> int \<Rightarrow> int" where
  "daysInMonth y m =
     (if m = 2 then (if leapYear y then 29 else 28)
      else if m = 4 \<or> m = 6 \<or> m = 9 \<or> m = 11 then 30 else 31)"

definition dayFromYear :: "int \<Rightarrow> int" where
  "dayFromYear y =
     365 * (y - 1970) + (y - 1969) div 4 - (y - 1901) div 100 + (y - 1601) div 400"

definition makeDay :: "int \<Rightarrow> int \<Rightarrow> int \<Rightarrow> int" where
  "makeDay y m d = dayFromYear y + sum_list (map (daysInMonth y) [1..m - 1]) + (d - 1)"

definition isoDate :: parser where
  "isoDate s =
     (if length s = 10 \<and> s ! 4 = CHR ''-'' \<and> s ! 7 = CHR ''-'' then
        (case digits 0 (take 4 s) of None \<Rightarrow> None
         | Some y \<Rightarrow>
        (case digits 0 (take 2 (drop 5 s)) of None \<Rightarrow> None
         | Some m \<Rightarrow>
        (case digits 0 (drop 8 s) of None \<Rightarrow> None
         | Some d \<Rightarrow>
            if 1 \<le> m \<and> m \<le> 12 \<and> 1 \<le> d \<and> d \<le> daysInMonth y m
            then Some (makeDay y m d * 86400000) else None)))
      else None)"

section \<open>The page\<close>

text \<open>
  A child of the gallery is a placeholder \<open>div\<close> (with or without the class
  \<open>fade-out\<close>, with or without the spinner and \<open>role="status"\<close>) or a card; a card
  carries the record its click handler passes to \<open>openModal\<close>.
\<close>

datatype node =
    Placeholder (faded: bool) (spinner: bool) (message: string)
  | Card (img_src: string) (img_alt: string) (caption: string) (on_click: apod)

record page =
  btn_disabled :: bool
  btn_text :: string
  gallery :: "node list"
  aria_busy :: "string option"
  modal_show :: bool
  modal_aria_hidden :: "string option"
  modalImage_src :: string
  modalImage_alt :: string
  modalTitle :: string
  modalDate :: string
  modalExplanation :: string
  startVal :: string
  endVal :: string
  lastFetchedItems :: "apod list option"
  console :: "string list"
  clock :: int

fun isPlaceholder :: "node \<Rightarrow> bool" where
  "isPlaceholder (Placeholder f s m) = True"
| "isPlaceholder (Card s a c it) = False"

text \<open>The records of the cards on display, in document order.\<close>

fun cardItems :: "node list \<Rightarrow> apod list" where
  "cardItems [] = []"
| "cardItems (Placeholder f s m # ns) = cardItems ns"
| "cardItems (Card s a c it # ns) = it # cardItems ns"

section \<open>The script\<close>

text \<open>
  Each function takes the page and returns the page it leaves. \<open>showLoading\<close>
  (lines 22-32), \<open>openModal\<close> (35-43) and \<open>closeModal\<close> (45-50):
\<close>

definition showLoading :: "page \<Rightarrow> page" where
  "showLoading st =
     st\<lparr>gallery := [Placeholder False True (''Fetching images'' @ ellipsis)],
        aria_busy := Some ''true''\<rparr>"

definition openModal :: "page \<Rightarrow> apod \<Rightarrow> page" where
  "openModal st item =
     st\<lparr>modalImage_src := toStr (jsor (jsor (hdurl item) (url item)) (Str [])),
        modalImage_alt := toStr (jsor (title item) (Str ''NASA image'')),
        modalTitle := toStr (jsor (title item) (Str [])),
        modalDate := toStr (jsor (date item) (Str [])),
        modalExplanation := toStr (jsor (explanation item) (Str [])),
        modal_show := True,
        modal_aria_hidden := Some ''false''\<rparr>"

definition closeModal :: "page \<Rightarrow> page" where
  "closeModal st =
     st\<lparr>modal_show := False, modal_aria_hidden := Some ''true'', modalImage_src := []\<rparr>"

text \<open>
  \<open>buildGallery\<close> (lines 53-83): \<open>isImage\<close> is the arrow function of line 55,
  \<open>mkCard\<close> and \<open>appendCard\<close> are the body of the \<open>forEach\<close> of lines 64-82.
\<close>

definition isImage :: "apod \<Rightarrow> bool" where
  "isImage it = (media_type it = Str ''image'')"

definition mkCard :: "apod \<Rightarrow> node" where
  "mkCard item =
     Card (toStr (url item))
          (toStr (jsor (title item) (Str ''APOD image'')))
          (toStr (title item) @ '' '' @ emdash @ '' '' @ toStr (date item))
          item"

definition appendCard :: "page \<Rightarrow> apod \<Rightarrow> page" where
  "appendCard st item = st\<lparr>gallery := gallery st @ [mkCard item]\<rparr>"

definition buildGallery :: "page \<Rightarrow> apod list \<Rightarrow> page" where
  "buildGallery st items =
     (let images = filter isImage items in
      if length images = 0
      then st\<lparr>gallery := [Placeholder False False ''No images found.'']\<rparr>
      else foldl appendCard (st\<lparr>gallery := []\<rparr>) images)"

text \<open>
  \<open>transitionToGallery\<close> (lines 86-93); \<open>fadePlaceholder\<close> is the fade of lines 87-91,
  which \<open>fetchAndShow\<close> repeats at lines 163-168 and 177-181.
  Awaiting a timer moves the clock. An asynchronous function is followed to its
  completion: the page described is the one after the timers it awaits have fired, with
  no other event handled in between.
\<close>

definition sleep :: "int \<Rightarrow> page \<Rightarrow> page" where
  "sleep ms st = st\<lparr>clock := clock st + ms\<rparr>"

fun addFadeOut :: "node list \<Rightarrow> node list" where
  "addFadeOut [] = []"
| "addFadeOut (Placeholder f s m # ns) = Placeholder True s m # ns"
| "addFadeOut (Card s a c it # ns) = Card s a c it # addFadeOut ns"

definition fadePlaceholder :: "page \<Rightarrow> page" where
  "fadePlaceholder st =
     (if list_ex isPlaceholder (gallery st)
      then sleep 380 (st\<lparr>gallery := addFadeOut (gallery st)\<rparr>)
      else st)"

definition transitionToGallery :: "page \<Rightarrow> apod list \<Rightarrow> page" where
  "transitionToGallery st items = buildGallery (fadePlaceholder st) items"

text \<open>
  \<open>applyFilter\<close> (lines 96-134). Its local variables \<open>start\<close> and \<open>end\<close>: \<open>None\<close>
  is \<open>null\<close> (the input is empty), \<open>Some d\<close> a \<open>Date\<close>, valid or not; a \<open>Date\<close>
  object is truthy even when invalid. \<open>readBound\<close> is lines 112-113, \<open>swapBounds\<close>
  lines 115-118, \<open>inRange\<close> the arrow function of lines 120-126.
\<close>

definition readBound :: "parser \<Rightarrow> string \<Rightarrow> jsdate option" where
  "readBound P v = (if v \<noteq> [] then Some (P v) else None)"

definition swapBounds :: "jsdate option \<times> jsdate option \<Rightarrow> jsdate option \<times> jsdate option" where
  "swapBounds se =
     (case se of
        (Some s, Some e) \<Rightarrow> if date_gt s e then (Some e, Some s) else (Some s, Some e)
      | _ \<Rightarrow> se)"

definition inRange :: "parser \<Rightarrow> jsdate option \<Rightarrow> jsdate option \<Rightarrow> apod \<Rightarrow> bool" where
  "inRange P start end it =
     (if media_type it \<noteq> Str ''image'' then False
      else let d = newDate P (date it) in
        if (case start of None \<Rightarrow> False | Some s \<Rightarrow> date_lt d s) then False
        else if (case end of None \<Rightarrow> False | Some e \<Rightarrow> date_gt d e) then False
        else True)"

definition noDataMessage :: string where
  "noDataMessage = ''No data loaded. Click '' @ dquote @ ''Fetch Space Images'' @ dquote @ '' first.''"

definition applyFilter :: "parser \<Rightarrow> page \<Rightarrow> page" where
  "applyFilter P st =
     (case lastFetchedItems st of
        None \<Rightarrow> st\<lparr>gallery := [Placeholder False False noDataMessage]\<rparr>
      | Some items \<Rightarrow>
          if startVal st = [] \<and> endVal st = []
          then transitionToGallery st (filter isImage items)
          else
            (case swapBounds (readBound P (startVal st), readBound P (endVal st)) of
               (start, end) \<Rightarrow>
                 let filtered = filter (inRange P start end) items in
                 if length filtered = 0
                 then st\<lparr>gallery := [Placeholder False False ''No images match that date range.'']\<rparr>
                 else transitionToGallery st filtered))"

text \<open>
  \<open>fetchAndShow\<close> (lines 137-190), with its \<open>try\<close>, \<open>catch\<close> and \<open>finally\<close> blocks.
  What its request can come to: \<open>fetch\<close> rejects with a message, or
  it gives a response with its \<open>ok\<close> flag, whose body \<open>res.json()\<close> either rejects or
  parses to an array of records or to an object, given by its own properties in
  enumeration order. The first component is the time the request took.
\<close>

datatype payload = JArray "apod list" | JObject "(string \<times> apod) list"

datatype body = Malformed string | Parsed payload

datatype outcome = Rejected int string | Response int bool body

definition objectValues :: "(string \<times> apod) list \<Rightarrow> apod list" where
  "objectValues kvs = map snd kvs"

definition MIN_LOADING_MS :: int where
  "MIN_LOADING_MS = 1200"

definition holdSpinner :: "int \<Rightarrow> page \<Rightarrow> page" where
  "holdSpinner start st =
     (let elapsed = clock st - start; remaining = MIN_LOADING_MS - elapsed in
      if remaining > 0 then sleep remaining st else st)"

text \<open>The \<open>try\<close> block: the page it leaves, and the message of the error it threw, if any.\<close>

definition tryBlock :: "int \<Rightarrow> outcome \<Rightarrow> page \<Rightarrow> string option \<times> page" where
  "tryBlock start r st =
     (let s1 = showLoading (st\<lparr>btn_disabled := True, btn_text := ''Loading'' @ ellipsis\<rparr>) in
      case r of
        Rejected t msg \<Rightarrow> (Some msg, sleep t s1)
      | Response t ok b \<Rightarrow>
          let s2 = sleep t s1 in
          if \<not> ok then (Some ''Network response was not ok'', s2)
          else (case b of
                  Malformed msg \<Rightarrow> (Some msg, s2)
                | Parsed data \<Rightarrow>
                    let items = (case data of JArray xs \<Rightarrow> xs | JObject kvs \<Rightarrow> objectValues kvs);
                        s3 = s2\<lparr>lastFetchedItems := Some items\<rparr>
                    in (None, buildGallery (fadePlaceholder (holdSpinner start s3)) items)))"

definition catchBlock :: "int \<Rightarrow> string \<Rightarrow> page \<Rightarrow> page" where
  "catchBlock start msg st =
     (let s1 = fadePlaceholder (holdSpinner start st) in
      s1\<lparr>gallery := [Placeholder False False (''Error loading images: '' @ msg)],
         console := console s1 @ [''Fetch error: '' @ msg]\<rparr>)"

definition finallyBlock :: "string \<Rightarrow> page \<Rightarrow> page" where
  "finallyBlock originalBtnText st =
     st\<lparr>btn_disabled := False,
        btn_text := toStr (jsor (Str originalBtnText) (Str ''Fetch Space Images'')),
        aria_busy := None\<rparr>"

definition fetchAndShow :: "outcome \<Rightarrow> page \<Rightarrow> page" where
  "fetchAndShow r st =
     (let originalBtnText = btn_text st; start = clock st in
      case tryBlock start r st of
        (None, s) \<Rightarrow> finallyBlock originalBtnText s
      | (Some msg, s) \<Rightarrow> finallyBlock originalBtnText (catchBlock start msg s))"

section \<open>Example feed\<close>

text \<open>
  Three records and two pages on which the theorems below are evaluated: the page as it
  is loaded, before any fetch, and the same page once a feed of three records is cached.
\<close>

definition exampleA :: apod where
  "exampleA = \<lparr>title = Str ''A'', date = Str ''2024-01-01'', explanation = Str ''first light'',
                media_type = Str ''image'', url = Str ''a.jpg'', hdurl = Undefined\<rparr>"

definition exampleB :: apod where
  "exampleB = \<lparr>title = Str ''B'', date = Str ''2024-01-05'', explanation = Str ''a film'',
                media_type = Str ''video'', url = Str ''b.mp4'', hdurl = Undefined\<rparr>"

definition exampleC :: apod where
  "exampleC = \<lparr>title = Str ''C'', date = Str ''2024-01-07'', explanation = Str ''a nebula'',
                media_type = Str ''image'', url = Str ''c.jpg'', hdurl = Str ''c_hd.jpg''\<rparr>"

definition examplePage :: page where
  "examplePage =
     \<lparr>btn_disabled = False, btn_text = ''Fetch Space Images'',
      gallery = [Placeholder False False ''Click the button to load images.''],
      aria_busy = None, modal_show = False, modal_aria_hidden = Some ''true'',
      modalImage_src = [], modalImage_alt = [], modalTitle = [], modalDate = [],
      modalExplanation = [], startVal = [], endVal = [], lastFetchedItems = None,
      console = [], clock = 0\<rparr>"

definition loadedPage :: page where
  "loadedPage = examplePage\<lparr>lastFetchedItems := Some [exampleA, exampleB, exampleC]\<rparr>"

lemmas example_defs = examplePage_def loadedPage_def exampleA_def exampleB_def exampleC_def

lemmas isoDate_defs = isoDate_def digit_def makeDay_def dayFromYear_def daysInMonth_def
  leapYear_def upto.simps

lemma isoDate_examples:
  "isoDate ''2024-01-01'' = Some 1704067200000"
  "isoDate ''2024-01-02'' = Some 1704153600000"
  "isoDate ''2024-01-05'' = Some 1704412800000"
  "isoDate ''2024-01-07'' = Some 1704585600000"
  by (simp_all add: isoDate_defs)

section \<open>What the renderer and the filter compute\<close>

lemma foldl_appendCard:
  "foldl appendCard st xs = st\<lparr>gallery := gallery st @ map mkCard xs\<rparr>"
  by (induction xs arbitrary: st) (simp_all add: appendCard_def)

lemma buildGallery_page:
  "buildGallery st items =
     st\<lparr>gallery := (if filter isImage items = []
                      then [Placeholder False False ''No images found.'']
                      else map mkCard (filter isImage items))\<rparr>"
  by (simp add: buildGallery_def Let_def foldl_appendCard)

lemma cardItems_mkCard: "cardItems (map mkCard xs) = xs"
  by (induction xs) (simp_all add: mkCard_def)

lemma cardItems_buildGallery:
  "cardItems (gallery (buildGallery st items)) = filter isImage items"
  by (simp add: buildGallery_page cardItems_mkCard)

lemma fadePlaceholder_page:
  "fadePlaceholder st =
     st\<lparr>gallery := (if list_ex isPlaceholder (gallery st) then addFadeOut (gallery st) else gallery st),
        clock := clock st + (if list_ex isPlaceholder (gallery st) then 380 else 0)\<rparr>"
  by (simp add: fadePlaceholder_def sleep_def)

lemma transitionToGallery_page:
  "transitionToGallery st items =
     st\<lparr>gallery := (if filter isImage items = []
                      then [Placeholder False False ''No images found.'']
                      else map mkCard (filter isImage items)),
        clock := clock st + (if list_ex isPlaceholder (gallery st) then 380 else 0)\<rparr>"
  by (simp add: transitionToGallery_def buildGallery_page fadePlaceholder_page)

lemma isImage_eq: "isImage = (\<lambda>it. media_type it = Str ''image'')"
  by (rule ext) (simp add: isImage_def)

lemma inRange_isImage: "inRange P s e it \<Longrightarrow> isImage it"
  by (simp add: inRange_def isImage_def split: if_splits)

lemma filter_inRange_isImage:
  "filter (\<lambda>x. inRange P s e x \<and> isImage x) xs = filter (inRange P s e) xs"
  by (rule filter_cong) (auto dest: inRange_isImage)

lemma inRange_unbounded: "inRange P None None = isImage"
  by (rule ext) (simp add: inRange_def isImage_def)

text \<open>Two valid bounds leave the swap as the smaller and the larger of the two.\<close>

lemma swapBounds_valid:
  "swapBounds (Some (Some s), Some (Some e)) = (Some (Some (min s e)), Some (Some (max s e)))"
  by (simp add: swapBounds_def date_gt_def date_lt_def min_def max_def)

text \<open>
  The page \<open>applyFilter\<close> leaves once a feed is cached, in terms of its local variables
  \<open>start\<close> and \<open>end\<close> after the swap.
\<close>

lemma applyFilter_page:
  assumes "lastFetchedItems st = Some recs"
    and "swapBounds (readBound P (startVal st), readBound P (endVal st)) = (start, end)"
  shows "applyFilter P st =
     (if startVal st \<noteq> [] \<or> endVal st \<noteq> [] then
        (if filter (inRange P start end) recs = []
         then st\<lparr>gallery := [Placeholder False False ''No images match that date range.'']\<rparr>
         else transitionToGallery st (filter (inRange P start end) recs))
      else transitionToGallery st (filter (inRange P start end) recs))"
proof (cases "startVal st = [] \<and> endVal st = []")
  case True
  with assms(2) have "start = None" "end = None"
    by (simp_all add: readBound_def swapBounds_def)
  with True assms(1) show ?thesis
    by (simp add: applyFilter_def inRange_unbounded)
next
  case False
  with assms show ?thesis
    by (auto simp add: applyFilter_def Let_def)
qed

lemma applyFilter_cards:
  assumes "lastFetchedItems st = Some recs"
    and "swapBounds (readBound P (startVal st), readBound P (endVal st)) = (start, end)"
  shows "cardItems (gallery (applyFilter P st)) = filter (inRange P start end) recs"
  by (simp add: applyFilter_page [OF assms] transitionToGallery_page cardItems_mkCard
        filter_inRange_isImage)

lemma inRange_valid:
  assumes "media_type it = Str ''image''" "date it = Str ds" "P ds = Some d"
    and "start \<noteq> Some None" "end \<noteq> Some None"
  shows "inRange P start end it \<longleftrightarrow>
           (\<forall>s. start = Some (Some s) \<longrightarrow> s \<le> d) \<and> (\<forall>e. end = Some (Some e) \<longrightarrow> d \<le> e)"
  using assms
  by (auto simp add: inRange_def newDate_def date_lt_def date_gt_def Let_def split: option.splits)

text \<open>What \<open>fetchAndShow\<close> caches and displays.\<close>

lemma fetchAndShow_feed:
  "gallery (fetchAndShow (Response t True (Parsed data)) st) =
     gallery (buildGallery st (case data of JArray xs \<Rightarrow> xs | JObject kvs \<Rightarrow> map snd kvs)) \<and>
   lastFetchedItems (fetchAndShow (Response t True (Parsed data)) st) =
     Some (case data of JArray xs \<Rightarrow> xs | JObject kvs \<Rightarrow> map snd kvs)"
  by (cases data)
     (simp_all add: fetchAndShow_def tryBlock_def finallyBlock_def Let_def buildGallery_page
        objectValues_def fadePlaceholder_page holdSpinner_def sleep_def showLoading_def)

lemma fetchAndShow_cards:
  "cardItems (gallery (fetchAndShow r st)) =
     (case r of
        Response t True (Parsed data) \<Rightarrow>
          filter isImage (case data of JArray xs \<Rightarrow> xs | JObject kvs \<Rightarrow> map snd kvs)
      | _ \<Rightarrow> [])"
  by (simp add: fetchAndShow_def tryBlock_def finallyBlock_def catchBlock_def Let_def
        buildGallery_page cardItems_mkCard objectValues_def
        split: outcome.split body.split bool.split payload.split)

section \<open>The fetch trigger after a fetch\<close>

text \<open>
  C1, as the script has it: whatever the request comes to, rejected, answered with a
  failure status, answered with a body that does not parse, or answered with a feed, once
  \<open>fetchAndShow\<close> has completed the trigger is enabled, the busy attribute of the gallery
  is removed, and the label of the trigger is the one it had before the call when that
  one was not empty, and \<open>Fetch Space Images\<close> when it was empty.
\<close>

theorem fetch_restores_trigger:
  "\<not> btn_disabled (fetchAndShow r st) \<and>
   btn_text (fetchAndShow r st) = (if btn_text st = [] then ''Fetch Space Images'' else btn_text st) \<and>
   aria_busy (fetchAndShow r st) = None"
  by (simp add: fetchAndShow_def finallyBlock_def Let_def jsor_def truthy_def toStr_def
           split: prod.split option.split)

text \<open>A rejected request and a delivered feed on the example page: the trigger is back as it was.\<close>

theorem fetch_restores_trigger_witness:
  "\<not> btn_disabled (fetchAndShow (Rejected 40 ''Failed to fetch'') examplePage) \<and>
   btn_text (fetchAndShow (Rejected 40 ''Failed to fetch'') examplePage) = ''Fetch Space Images'' \<and>
   aria_busy (fetchAndShow (Rejected 40 ''Failed to fetch'') examplePage) = None \<and>
   \<not> btn_disabled (fetchAndShow (Response 90 True (Parsed (JArray [exampleA]))) examplePage) \<and>
   btn_text (fetchAndShow (Response 90 True (Parsed (JArray [exampleA]))) examplePage)
     = ''Fetch Space Images'' \<and>
   aria_busy (fetchAndShow (Response 90 True (Parsed (JArray [exampleA]))) examplePage) = None"
  using fetch_restores_trigger [of "Rejected 40 ''Failed to fetch''" examplePage]
    fetch_restores_trigger [of "Response 90 True (Parsed (JArray [exampleA]))" examplePage]
  by (simp add: examplePage_def)

text \<open>
  C1 as written fails where the trigger has an empty label: the label after the fetch
  is \<open>Fetch Space Images\<close>, not the empty label the trigger had.
\<close>

theorem fetch_label_counterexample:
  "btn_text (examplePage\<lparr>btn_text := []\<rparr>) = [] \<and>
   btn_text (fetchAndShow (Rejected 40 ''Failed to fetch'') (examplePage\<lparr>btn_text := []\<rparr>))
     = ''Fetch Space Images'' \<and>
   btn_text (fetchAndShow (Rejected 40 ''Failed to fetch'') (examplePage\<lparr>btn_text := []\<rparr>))
     \<noteq> btn_text (examplePage\<lparr>btn_text := []\<rparr>)"
  by (simp add: fetchAndShow_def tryBlock_def catchBlock_def finallyBlock_def showLoading_def
        sleep_def holdSpinner_def fadePlaceholder_def MIN_LOADING_MS_def
        Let_def jsor_def truthy_def toStr_def examplePage_def)

section \<open>The date filter\<close>

text \<open>
  C2: with a feed cached and both date inputs empty, the filter hands the renderer exactly
  the records of the cache whose \<open>media_type\<close> is \<open>image\<close>, in the order of the
  cache, and these are the records of the cards then on display.
\<close>

theorem filter_no_bounds:
  assumes "lastFetchedItems st = Some recs" and "startVal st = []" and "endVal st = []"
  shows "applyFilter P st =
           transitionToGallery st (filter (\<lambda>it. media_type it = Str ''image'') recs) \<and>
         cardItems (gallery (applyFilter P st)) = filter (\<lambda>it. media_type it = Str ''image'') recs"
proof -
  have "applyFilter P st = transitionToGallery st (filter isImage recs)"
    using assms by (simp add: applyFilter_def)
  moreover have "cardItems (gallery (transitionToGallery st (filter isImage recs))) = filter isImage recs"
    by (simp add: transitionToGallery_page cardItems_mkCard)
  ultimately show ?thesis by (simp add: isImage_eq)
qed

theorem filter_no_bounds_witness:
  "lastFetchedItems loadedPage = Some [exampleA, exampleB, exampleC] \<and>
   startVal loadedPage = [] \<and> endVal loadedPage = [] \<and>
   cardItems (gallery (applyFilter isoDate loadedPage)) = [exampleA, exampleC]"
  using filter_no_bounds [of loadedPage "[exampleA, exampleB, exampleC]" isoDate]
  by (simp add: example_defs transitionToGallery_page isImage_def mkCard_def)

text \<open>
  C3: for two non-empty inputs \<open>a\<close> and \<open>b\<close> that parse to valid dates, \<open>a\<close> later than
  \<open>b\<close>, the filter swaps its bounds, so that the earlier date is the lower one, and what
  it leaves with \<open>a\<close> as start and \<open>b\<close> as end is what it leaves with \<open>b\<close> as start and
  \<open>a\<close> as end: the two pages differ in nothing but the two inputs themselves.
\<close>

theorem filter_swaps_bounds:
  assumes "a \<noteq> []" "b \<noteq> []" "P a = Some ta" "P b = Some tb" "tb < ta"
  shows "swapBounds (readBound P a, readBound P b) = (Some (Some tb), Some (Some ta)) \<and>
         applyFilter P (st\<lparr>startVal := a, endVal := b\<rparr>) =
           (applyFilter P (st\<lparr>startVal := b, endVal := a\<rparr>))\<lparr>startVal := a, endVal := b\<rparr>"
proof -
  have ab: "swapBounds (readBound P a, readBound P b) = (Some (Some tb), Some (Some ta))"
    using assms by (simp add: swapBounds_def readBound_def date_gt_def date_lt_def)
  have ba: "swapBounds (readBound P b, readBound P a) = (Some (Some tb), Some (Some ta))"
    using assms by (simp add: swapBounds_def readBound_def date_gt_def date_lt_def)
  have "applyFilter P (st\<lparr>startVal := a, endVal := b\<rparr>) =
           (applyFilter P (st\<lparr>startVal := b, endVal := a\<rparr>))\<lparr>startVal := a, endVal := b\<rparr>"
  proof (cases "lastFetchedItems st")
    case None
    then show ?thesis by (simp add: applyFilter_def)
  next
    case (Some recs)
    then show ?thesis
      using assms(1,2) ab ba
      by (simp add: applyFilter_def Let_def transitionToGallery_page)
  qed
  with ab show ?thesis by simp
qed

theorem filter_swaps_bounds_witness:
  "isoDate ''2024-01-05'' = Some 1704412800000 \<and> isoDate ''2024-01-01'' = Some 1704067200000 \<and>
   applyFilter isoDate (loadedPage\<lparr>startVal := ''2024-01-05'', endVal := ''2024-01-01''\<rparr>) =
     (applyFilter isoDate (loadedPage\<lparr>startVal := ''2024-01-01'', endVal := ''2024-01-05''\<rparr>))
       \<lparr>startVal := ''2024-01-05'', endVal := ''2024-01-01''\<rparr> \<and>
   cardItems (gallery (applyFilter isoDate
       (loadedPage\<lparr>startVal := ''2024-01-05'', endVal := ''2024-01-01''\<rparr>))) = [exampleA]"
  using filter_swaps_bounds [of "''2024-01-05''" "''2024-01-01''" isoDate 1704412800000
      1704067200000 loadedPage]
    applyFilter_cards [of "loadedPage\<lparr>startVal := ''2024-01-05'', endVal := ''2024-01-01''\<rparr>"
      "[exampleA, exampleB, exampleC]" isoDate "Some (Some 1704067200000)" "Some (Some 1704412800000)"]
  by (simp add: isoDate_examples example_defs inRange_def newDate_def date_lt_def date_gt_def)

text \<open>
  C4: let \<open>start\<close> and \<open>end\<close> be the bounds the filter works with, that is, the two
  inputs read (an empty input is an absent bound) and swapped where the start is later
  than the end, and let each bound that is present be a valid date. Then a record of the
  cache whose \<open>media_type\<close> is \<open>image\<close> and whose date parses to the time \<open>d\<close> is on
  display after the filter if and only if \<open>start \<le> d\<close> where a start is present and
  \<open>d \<le> end\<close> where an end is present. Both ends are included; an absent bound
  constrains nothing.
\<close>

theorem filter_inclusive_range:
  assumes cache: "lastFetchedItems st = Some recs"
    and bounds: "swapBounds (readBound P (startVal st), readBound P (endVal st)) = (start, end)"
    and valid: "start \<noteq> Some None" "end \<noteq> Some None"
    and rec: "it \<in> set recs" "media_type it = Str ''image''" "date it = Str ds" "P ds = Some d"
  shows "it \<in> set (cardItems (gallery (applyFilter P st))) \<longleftrightarrow>
           (\<forall>s. start = Some (Some s) \<longrightarrow> s \<le> d) \<and> (\<forall>e. end = Some (Some e) \<longrightarrow> d \<le> e)"
proof -
  have "inRange P start end it \<longleftrightarrow>
           (\<forall>s. start = Some (Some s) \<longrightarrow> s \<le> d) \<and> (\<forall>e. end = Some (Some e) \<longrightarrow> d \<le> e)"
    using rec(2-4) valid by (rule inRange_valid)
  with rec(1) show ?thesis
    by (simp add: applyFilter_cards [OF cache bounds])
qed

text \<open>
  On the cached example feed: with the range 2024-01-01 to 2024-01-05 the record dated
  2024-01-01 is kept (the lower end is included) and the one dated 2024-01-07 is not;
  with the start 2024-01-07 alone the record dated 2024-01-07 is kept.
\<close>

theorem filter_inclusive_range_witness:
  "exampleA \<in> set (cardItems (gallery (applyFilter isoDate
       (loadedPage\<lparr>startVal := ''2024-01-01'', endVal := ''2024-01-05''\<rparr>)))) \<and>
   exampleC \<notin> set (cardItems (gallery (applyFilter isoDate
       (loadedPage\<lparr>startVal := ''2024-01-01'', endVal := ''2024-01-05''\<rparr>)))) \<and>
   exampleC \<in> set (cardItems (gallery (applyFilter isoDate
       (loadedPage\<lparr>startVal := ''2024-01-07'', endVal := []\<rparr>))))"
  using
    filter_inclusive_range [of "loadedPage\<lparr>startVal := ''2024-01-01'', endVal := ''2024-01-05''\<rparr>"
      "[exampleA, exampleB, exampleC]" isoDate "Some (Some 1704067200000)"
      "Some (Some 1704412800000)" exampleA "''2024-01-01''" 1704067200000]
    filter_inclusive_range [of "loadedPage\<lparr>startVal := ''2024-01-01'', endVal := ''2024-01-05''\<rparr>"
      "[exampleA, exampleB, exampleC]" isoDate "Some (Some 1704067200000)"
      "Some (Some 1704412800000)" exampleC "''2024-01-07''" 1704585600000]
    filter_inclusive_range [of "loadedPage\<lparr>startVal := ''2024-01-07'', endVal := []\<rparr>"
      "[exampleA, exampleB, exampleC]" isoDate "Some (Some 1704585600000)"
      None exampleC "''2024-01-07''" 1704585600000]
  by (simp add: isoDate_examples example_defs swapBounds_def readBound_def date_gt_def date_lt_def)


text \<open>
  C5: with a feed cached, whatever the two inputs hold, the filter ends with a page and
  leaves the cache as it was. When no record of the cache passes (with \<open>start\<close> and
  \<open>end\<close> the bounds after the swap), no card is on display and the gallery holds one
  placeholder: \<open>No images match that date range.\<close> when an input was given,
  \<open>No images found.\<close> when both were empty. Otherwise the gallery holds the cards of the
  records that pass.
\<close>

theorem filter_never_fails:
  assumes cache: "lastFetchedItems st = Some recs"
    and bounds: "swapBounds (readBound P (startVal st), readBound P (endVal st)) = (start, end)"
  shows "gallery (applyFilter P st) =
           (if filter (inRange P start end) recs = []
            then [Placeholder False False
                    (if startVal st = [] \<and> endVal st = [] then ''No images found.''
                     else ''No images match that date range.'')]
            else map mkCard (filter (inRange P start end) recs)) \<and>
         cardItems (gallery (applyFilter P st)) = filter (inRange P start end) recs \<and>
         lastFetchedItems (applyFilter P st) = Some recs"
proof -
  have "gallery (applyFilter P st) =
           (if filter (inRange P start end) recs = []
            then [Placeholder False False
                    (if startVal st = [] \<and> endVal st = [] then ''No images found.''
                     else ''No images match that date range.'')]
            else map mkCard (filter (inRange P start end) recs))"
    by (simp add: applyFilter_page [OF cache bounds] transitionToGallery_page
          filter_inRange_isImage)
  moreover have "lastFetchedItems (applyFilter P st) = Some recs"
    using cache by (simp add: applyFilter_page [OF cache bounds] transitionToGallery_page)
  moreover have "cardItems (gallery (applyFilter P st)) = filter (inRange P start end) recs"
    using cache bounds by (rule applyFilter_cards)
  ultimately show ?thesis
    by blast
qed

text \<open>
  On the cached example feed the range 2024-01-02 to 2024-01-05 holds the video only:
  nothing passes and the placeholder is shown.
\<close>

theorem filter_never_fails_witness:
  "gallery (applyFilter isoDate (loadedPage\<lparr>startVal := ''2024-01-02'', endVal := ''2024-01-05''\<rparr>))
     = [Placeholder False False ''No images match that date range.''] \<and>
   cardItems (gallery (applyFilter isoDate
       (loadedPage\<lparr>startVal := ''2024-01-02'', endVal := ''2024-01-05''\<rparr>))) = [] \<and>
   lastFetchedItems (applyFilter isoDate
       (loadedPage\<lparr>startVal := ''2024-01-02'', endVal := ''2024-01-05''\<rparr>))
     = Some [exampleA, exampleB, exampleC]"
  using filter_never_fails [of "loadedPage\<lparr>startVal := ''2024-01-02'', endVal := ''2024-01-05''\<rparr>"
      "[exampleA, exampleB, exampleC]" isoDate "Some (Some 1704153600000)" "Some (Some 1704412800000)"]
  by (simp add: isoDate_examples example_defs swapBounds_def readBound_def date_gt_def date_lt_def
        inRange_def newDate_def)

text \<open>
  C10: while the cache is still \<open>null\<close> the filter changes nothing but the content of
  the gallery, which becomes the placeholder asking to fetch first; the cache stays
  \<open>null\<close>.
\<close>

theorem filter_before_fetch:
  assumes "lastFetchedItems st = None"
  shows "applyFilter P st =
           st\<lparr>gallery := [Placeholder False False
              (''No data loaded. Click '' @ [CHR 0x22] @ ''Fetch Space Images'' @ [CHR 0x22] @ '' first.'')]\<rparr> \<and>
         lastFetchedItems (applyFilter P st) = None"
  using assms by (simp add: applyFilter_def noDataMessage_def dquote_def)

theorem filter_before_fetch_witness:
  "lastFetchedItems examplePage = None \<and>
   gallery (applyFilter isoDate examplePage) =
     [Placeholder False False
        (''No data loaded. Click '' @ [CHR 0x22] @ ''Fetch Space Images'' @ [CHR 0x22] @ '' first.'')] \<and>
   lastFetchedItems (applyFilter isoDate examplePage) = None"
  using filter_before_fetch [of examplePage isoDate]
  by (simp add: example_defs)

section \<open>The gallery renderer\<close>

text \<open>
  C6: \<open>buildGallery\<close> leaves in the gallery, when no record of its input has the
  \<open>media_type\<close> \<open>image\<close>, the single placeholder \<open>No images found.\<close>, and otherwise
  one card for each image record, in the order of the input and nothing else; the card's
  image source is the record's \<open>url\<close>, its caption the record's title, an em dash between
  two spaces, and the record's date, and its click handler holds the record.
\<close>

theorem gallery_cards:
  "gallery (buildGallery st items) =
     (if filter (\<lambda>it. media_type it = Str ''image'') items = []
      then [Placeholder False False ''No images found.'']
      else map (\<lambda>it. Card (toStr (url it))
                          (toStr (jsor (title it) (Str ''APOD image'')))
                          (toStr (title it) @ '' '' @ [CHR 0xE2, CHR 0x80, CHR 0x94] @ '' '' @ toStr (date it))
                          it)
               (filter (\<lambda>it. media_type it = Str ''image'') items))"
proof -
  have "mkCard = (\<lambda>it. Card (toStr (url it))
                          (toStr (jsor (title it) (Str ''APOD image'')))
                          (toStr (title it) @ '' '' @ [CHR 0xE2, CHR 0x80, CHR 0x94] @ '' '' @ toStr (date it))
                          it)"
    by (rule ext) (simp add: mkCard_def emdash_def)
  then show ?thesis
    by (simp add: buildGallery_page isImage_eq)
qed

text \<open>An image and a video give one card; a video alone gives the placeholder.\<close>

theorem gallery_cards_witness:
  "gallery (buildGallery examplePage [exampleA, exampleB]) =
     [Card ''a.jpg'' ''A'' (''A '' @ [CHR 0xE2, CHR 0x80, CHR 0x94] @ '' 2024-01-01'') exampleA] \<and>
   gallery (buildGallery examplePage [exampleB]) = [Placeholder False False ''No images found.'']"
  using gallery_cards [of examplePage "[exampleA, exampleB]"] gallery_cards [of examplePage "[exampleB]"]
  by (simp add: example_defs toStr_def jsor_def truthy_def)

text \<open>
  C9: after each of the functions that write the gallery, \<open>buildGallery\<close>,
  \<open>transitionToGallery\<close>, \<open>applyFilter\<close> with any two inputs and \<open>fetchAndShow\<close>
  with any outcome, every card on display is the card of a record whose \<open>media_type\<close>
  is \<open>image\<close>.
\<close>

theorem only_images_rendered:
  "(\<forall>it \<in> set (cardItems (gallery (buildGallery st items))). media_type it = Str ''image'') \<and>
   (\<forall>it \<in> set (cardItems (gallery (transitionToGallery st items))). media_type it = Str ''image'') \<and>
   (\<forall>it \<in> set (cardItems (gallery (applyFilter P st'))). media_type it = Str ''image'') \<and>
   (\<forall>it \<in> set (cardItems (gallery (fetchAndShow r st''))). media_type it = Str ''image'')"
proof (intro conjI)
  show "\<forall>it \<in> set (cardItems (gallery (buildGallery st items))). media_type it = Str ''image''"
    by (simp add: cardItems_buildGallery isImage_def)
  show "\<forall>it \<in> set (cardItems (gallery (transitionToGallery st items))). media_type it = Str ''image''"
    by (simp add: transitionToGallery_page cardItems_mkCard isImage_def)
  show "\<forall>it \<in> set (cardItems (gallery (applyFilter P st'))). media_type it = Str ''image''"
  proof (cases "lastFetchedItems st'")
    case None
    then show ?thesis by (simp add: applyFilter_def)
  next
    case (Some recs)
    obtain start "end" where
      "swapBounds (readBound P (startVal st'), readBound P (endVal st')) = (start, end)"
      by (cases "swapBounds (readBound P (startVal st'), readBound P (endVal st'))") simp
    with Some have "cardItems (gallery (applyFilter P st')) = filter (inRange P start end) recs"
      by (rule applyFilter_cards)
    then show ?thesis
      using inRange_isImage by (auto simp add: isImage_def)
  qed
  show "\<forall>it \<in> set (cardItems (gallery (fetchAndShow r st''))). media_type it = Str ''image''"
  proof (cases r)
    case (Rejected t msg)
    then show ?thesis by (simp add: fetchAndShow_cards)
  next
    case (Response t ok b)
    show ?thesis
    proof (cases b)
      case (Malformed msg)
      with Response show ?thesis by (cases ok) (simp_all add: fetchAndShow_cards)
    next
      case (Parsed data)
      with Response show ?thesis
        by (cases ok; cases data) (simp_all add: fetchAndShow_cards isImage_def)
    qed
  qed
qed

text \<open>
  On the example feed the two images are on display after rendering, after filtering from
  2024-01-02 on (the later image only) and after a fetch; the video never is.
\<close>

theorem only_images_rendered_witness:
  "exampleA \<in> set (cardItems (gallery (buildGallery examplePage [exampleA, exampleB, exampleC]))) \<and>
   exampleB \<notin> set (cardItems (gallery (buildGallery examplePage [exampleA, exampleB, exampleC]))) \<and>
   exampleC \<in> set (cardItems (gallery (applyFilter isoDate
       (loadedPage\<lparr>startVal := ''2024-01-02'', endVal := []\<rparr>)))) \<and>
   exampleB \<notin> set (cardItems (gallery (applyFilter isoDate
       (loadedPage\<lparr>startVal := ''2024-01-02'', endVal := []\<rparr>)))) \<and>
   exampleA \<in> set (cardItems (gallery (fetchAndShow
       (Response 90 True (Parsed (JArray [exampleA, exampleB, exampleC]))) examplePage))) \<and>
   exampleB \<notin> set (cardItems (gallery (fetchAndShow
       (Response 90 True (Parsed (JArray [exampleA, exampleB, exampleC]))) examplePage))) \<and>
   media_type exampleA = Str ''image'' \<and> media_type exampleC = Str ''image'' \<and>
   media_type exampleB = Str ''video''"
  using only_images_rendered [of examplePage "[exampleA, exampleB, exampleC]" isoDate
      "loadedPage\<lparr>startVal := ''2024-01-02'', endVal := []\<rparr>"
      "Response 90 True (Parsed (JArray [exampleA, exampleB, exampleC]))" examplePage]
    applyFilter_cards [of "loadedPage\<lparr>startVal := ''2024-01-02'', endVal := []\<rparr>"
      "[exampleA, exampleB, exampleC]" isoDate "Some (Some 1704153600000)" None]
  by (simp add: cardItems_buildGallery fetchAndShow_cards isImage_def isoDate_examples example_defs
        swapBounds_def readBound_def inRange_def newDate_def date_lt_def date_gt_def)

section \<open>The detail overlay\<close>

text \<open>
  C7, as the script has it: \<open>openModal\<close> shows as image source the record's \<open>hdurl\<close>
  when that is present and not empty, and the record's \<open>url\<close> when \<open>hdurl\<close> is absent
  or empty; it shows the record's title, date and explanation, adds the class \<open>show\<close>
  and sets \<open>aria-hidden\<close> to \<open>false\<close>.
\<close>

theorem overlay_open:
  "(hdurl item = Str h \<and> h \<noteq> [] \<longrightarrow> modalImage_src (openModal st item) = h) \<and>
   ((hdurl item = Undefined \<or> hdurl item = Str []) \<and> url item = Str u \<longrightarrow>
      modalImage_src (openModal st item) = u) \<and>
   (title item = Str t \<longrightarrow> modalTitle (openModal st item) = t) \<and>
   (date item = Str d \<longrightarrow> modalDate (openModal st item) = d) \<and>
   (explanation item = Str e \<longrightarrow> modalExplanation (openModal st item) = e) \<and>
   modal_show (openModal st item) \<and>
   modal_aria_hidden (openModal st item) = Some ''false''"
  by (auto simp add: openModal_def jsor_def truthy_def toStr_def)

text \<open>A record with an \<open>hdurl\<close> and a record without one.\<close>

theorem overlay_open_witness:
  "modalImage_src (openModal examplePage exampleC) = ''c_hd.jpg'' \<and>
   modalImage_src (openModal examplePage exampleA) = ''a.jpg'' \<and>
   modalTitle (openModal examplePage exampleA) = ''A'' \<and>
   modalDate (openModal examplePage exampleA) = ''2024-01-01'' \<and>
   modalExplanation (openModal examplePage exampleA) = ''first light'' \<and>
   modal_show (openModal examplePage exampleA) \<and>
   modal_aria_hidden (openModal examplePage exampleA) = Some ''false''"
  using overlay_open [of exampleC "''c_hd.jpg''" examplePage "''c.jpg''" "''C''" "''2024-01-07''" "''a nebula''"]
    overlay_open [of exampleA "''x''" examplePage "''a.jpg''" "''A''" "''2024-01-01''" "''first light''"]
  by (simp add: example_defs)

text \<open>
  C7 as written fails on a record whose \<open>hdurl\<close> is present and empty: the image source
  shown is the record's \<open>url\<close>, not its \<open>hdurl\<close>.
\<close>

theorem overlay_empty_hdurl_counterexample:
  "hdurl (exampleA\<lparr>hdurl := Str []\<rparr>) = Str [] \<and>
   modalImage_src (openModal examplePage (exampleA\<lparr>hdurl := Str []\<rparr>)) = ''a.jpg'' \<and>
   modalImage_src (openModal examplePage (exampleA\<lparr>hdurl := Str []\<rparr>))
     \<noteq> toStr (hdurl (exampleA\<lparr>hdurl := Str []\<rparr>))"
  by (simp add: openModal_def jsor_def truthy_def toStr_def example_defs)

section \<open>The shape of the feed\<close>

text \<open>
  C8: when the response parses to an array, that array is the record sequence that is
  cached and rendered; when it parses to an object, the sequence is that of the object's
  values, in the order of its properties.
\<close>

theorem payload_shapes:
  "lastFetchedItems (fetchAndShow (Response t True (Parsed (JArray xs))) st) = Some xs \<and>
   cardItems (gallery (fetchAndShow (Response t True (Parsed (JArray xs))) st)) =
     filter (\<lambda>it. media_type it = Str ''image'') xs \<and>
   lastFetchedItems (fetchAndShow (Response t True (Parsed (JObject kvs))) st) = Some (map snd kvs) \<and>
   cardItems (gallery (fetchAndShow (Response t True (Parsed (JObject kvs))) st)) =
     filter (\<lambda>it. media_type it = Str ''image'') (map snd kvs)"
  using fetchAndShow_feed [of t "JArray xs" st] fetchAndShow_feed [of t "JObject kvs" st]
  by (simp add: cardItems_buildGallery isImage_eq)

theorem payload_shapes_witness:
  "lastFetchedItems (fetchAndShow (Response 90 True (Parsed (JArray [exampleA, exampleB]))) examplePage)
     = Some [exampleA, exampleB] \<and>
   lastFetchedItems (fetchAndShow (Response 90 True
       (Parsed (JObject [(''2024-01-07'', exampleC), (''2024-01-01'', exampleA)]))) examplePage)
     = Some [exampleC, exampleA] \<and>
   cardItems (gallery (fetchAndShow (Response 90 True
       (Parsed (JObject [(''2024-01-07'', exampleC), (''2024-01-01'', exampleA)]))) examplePage))
     = [exampleC, exampleA]"
  using payload_shapes [of 90 "[exampleA, exampleB]" examplePage
      "[(''2024-01-07'', exampleC), (''2024-01-01'', exampleA)]"]
  by (simp add: example_defs)

end
